theory Spec2Isabelle
  imports Complex_Main "HOL-Library.Sublist"
begin

section \<open>JavaScript numbers\<close>

text \<open>
  The engine computes with JavaScript numbers. The model keeps the special values of
  IEEE arithmetic that the engine can produce (a division by zero gives an infinity,
  an undetermined form gives NaN, and NaN passes through every later operation) and
  computes exactly on the finite values: a finite result is the real number, so the
  rounding of a double is not modelled, and neither is the overflow of a finite product,
  sum or quotient to an infinity. Both zeros are the one real \<open>0\<close>, taken as \<open>+0\<close>
  when it divides.

  The concrete cases below give the exact value, of which the double that the engine
  holds is the rounding. The properties that range over all inputs are stated so that
  they do not depend on the last digits of a result: they bound a value by constants
  that the rounding respects, they compare a stored value with the reported one, or they
  bound the inputs away from the range where a double overflows. A property that compares two results of the arithmetic
  exactly, such as the strict growth of a posterior under supporting evidence or its
  standing still under neutral evidence, is not stated: whether it holds of the doubles
  depends on their rounding.
\<close>

datatype number = Num real | PosInfinity | NegInfinity | NaN

fun js_neg :: "number \<Rightarrow> number" where
  "js_neg (Num a) = Num (- a)"
| "js_neg PosInfinity = NegInfinity"
| "js_neg NegInfinity = PosInfinity"
| "js_neg NaN = NaN"

fun js_add :: "number \<Rightarrow> number \<Rightarrow> number" where
  "js_add (Num a) (Num b) = Num (a + b)"
| "js_add (Num a) PosInfinity = PosInfinity"
| "js_add (Num a) NegInfinity = NegInfinity"
| "js_add PosInfinity (Num b) = PosInfinity"
| "js_add PosInfinity PosInfinity = PosInfinity"
| "js_add PosInfinity NegInfinity = NaN"
| "js_add NegInfinity (Num b) = NegInfinity"
| "js_add NegInfinity PosInfinity = NaN"
| "js_add NegInfinity NegInfinity = NegInfinity"
| "js_add NaN y = NaN"
| "js_add x NaN = NaN"

definition js_sub :: "number \<Rightarrow> number \<Rightarrow> number" where
  "js_sub x y = js_add x (js_neg y)"

text \<open>An infinity times a finite number: NaN at zero, otherwise the sign decides.\<close>

definition signed_infinity :: "bool \<Rightarrow> real \<Rightarrow> number" where
  "signed_infinity positive a =
     (if a = 0 then NaN
      else if (0 < a) = positive then PosInfinity else NegInfinity)"

fun js_mul :: "number \<Rightarrow> number \<Rightarrow> number" where
  "js_mul (Num a) (Num b) = Num (a * b)"
| "js_mul (Num a) PosInfinity = signed_infinity True a"
| "js_mul (Num a) NegInfinity = signed_infinity False a"
| "js_mul PosInfinity (Num b) = signed_infinity True b"
| "js_mul NegInfinity (Num b) = signed_infinity False b"
| "js_mul PosInfinity PosInfinity = PosInfinity"
| "js_mul PosInfinity NegInfinity = NegInfinity"
| "js_mul NegInfinity PosInfinity = NegInfinity"
| "js_mul NegInfinity NegInfinity = PosInfinity"
| "js_mul NaN y = NaN"
| "js_mul x NaN = NaN"

fun js_div :: "number \<Rightarrow> number \<Rightarrow> number" where
  "js_div (Num a) (Num b) =
     (if b \<noteq> 0 then Num (a / b)
      else if a = 0 then NaN
      else if 0 < a then PosInfinity else NegInfinity)"
| "js_div (Num a) PosInfinity = Num 0"
| "js_div (Num a) NegInfinity = Num 0"
| "js_div PosInfinity (Num b) = (if 0 \<le> b then PosInfinity else NegInfinity)"
| "js_div NegInfinity (Num b) = (if 0 \<le> b then NegInfinity else PosInfinity)"
| "js_div PosInfinity PosInfinity = NaN"
| "js_div PosInfinity NegInfinity = NaN"
| "js_div NegInfinity PosInfinity = NaN"
| "js_div NegInfinity NegInfinity = NaN"
| "js_div NaN y = NaN"
| "js_div x NaN = NaN"

text \<open>\<open>Math.max\<close> and \<open>Math.min\<close> return NaN as soon as one argument is NaN.\<close>

fun js_max :: "number \<Rightarrow> number \<Rightarrow> number" where
  "js_max (Num a) (Num b) = Num (max a b)"
| "js_max (Num a) PosInfinity = PosInfinity"
| "js_max (Num a) NegInfinity = Num a"
| "js_max PosInfinity (Num b) = PosInfinity"
| "js_max PosInfinity PosInfinity = PosInfinity"
| "js_max PosInfinity NegInfinity = PosInfinity"
| "js_max NegInfinity (Num b) = Num b"
| "js_max NegInfinity PosInfinity = PosInfinity"
| "js_max NegInfinity NegInfinity = NegInfinity"
| "js_max NaN y = NaN"
| "js_max x NaN = NaN"

fun js_min :: "number \<Rightarrow> number \<Rightarrow> number" where
  "js_min (Num a) (Num b) = Num (min a b)"
| "js_min (Num a) PosInfinity = Num a"
| "js_min (Num a) NegInfinity = NegInfinity"
| "js_min PosInfinity (Num b) = Num b"
| "js_min PosInfinity PosInfinity = PosInfinity"
| "js_min PosInfinity NegInfinity = NegInfinity"
| "js_min NegInfinity (Num b) = NegInfinity"
| "js_min NegInfinity PosInfinity = NegInfinity"
| "js_min NegInfinity NegInfinity = NegInfinity"
| "js_min NaN y = NaN"
| "js_min x NaN = NaN"

text \<open>The comparison \<open>x > y\<close>: false whenever NaN takes part.\<close>

fun js_gt :: "number \<Rightarrow> number \<Rightarrow> bool" where
  "js_gt (Num a) (Num b) = (b < a)"
| "js_gt (Num a) PosInfinity = False"
| "js_gt (Num a) NegInfinity = True"
| "js_gt PosInfinity (Num b) = True"
| "js_gt PosInfinity PosInfinity = False"
| "js_gt PosInfinity NegInfinity = True"
| "js_gt NegInfinity y = False"
| "js_gt NaN y = False"
| "js_gt x NaN = False"

fun js_log2 :: "number \<Rightarrow> number" where
  "js_log2 (Num a) =
     (if 0 < a then Num (log 2 a) else if a = 0 then NegInfinity else NaN)"
| "js_log2 PosInfinity = PosInfinity"
| "js_log2 NegInfinity = NaN"
| "js_log2 NaN = NaN"

section \<open>JavaScript strings\<close>

text \<open>
  Strings are lists of 8-bit characters; \<open>toLowerCase\<close> and the class \<open>\s\<close> are
  modelled on ASCII.
\<close>

definition lowerChar :: "char \<Rightarrow> char" where
  "lowerChar c =
     (let n = (of_char c :: nat) in if 65 \<le> n \<and> n \<le> 90 then char_of (n + 32) else c)"

definition toLowerCase :: "string \<Rightarrow> string" where
  "toLowerCase s = map lowerChar s"

definition isSpace :: "char \<Rightarrow> bool" where
  "isSpace c = ((of_char c :: nat) \<in> {9, 10, 11, 12, 13, 32})"

text \<open>
  \<open>s.replace(/\s+/g, '_')\<close>: every maximal run of white space becomes one underscore.
  The flag says that the previous character was white space.
\<close>

fun replaceRuns :: "bool \<Rightarrow> string \<Rightarrow> string" where
  "replaceRuns inRun [] = []"
| "replaceRuns inRun (c # cs) =
     (if isSpace c then (if inRun then replaceRuns True cs else CHR ''_'' # replaceRuns True cs)
      else c # replaceRuns False cs)"

definition replaceWhitespace :: "string \<Rightarrow> string" where
  "replaceWhitespace s = replaceRuns False s"

text \<open>\<open>s.includes(t)\<close>: \<open>t\<close> occurs in \<open>s\<close> as a contiguous substring.\<close>

fun includesStr :: "string \<Rightarrow> string \<Rightarrow> bool" where
  "includesStr [] t = (t = [])"
| "includesStr (c # cs) t = (prefix t (c # cs) \<or> includesStr cs t)"

text \<open>\<open>s.trim()\<close> removes white space at both ends.\<close>

definition trim :: "string \<Rightarrow> string" where
  "trim s = rev (dropWhile isSpace (rev (dropWhile isSpace s)))"

text \<open>\<open>String(n)\<close> for an integral number is its decimal numeral.\<close>

fun digitsOfNat :: "nat \<Rightarrow> string" where
  "digitsOfNat n =
     (if n < 10 then [char_of (48 + n)]
      else digitsOfNat (n div 10) @ [char_of (48 + n mod 10)])"

declare digitsOfNat.simps [simp del]

definition stringOfInt :: "int \<Rightarrow> string" where
  "stringOfInt i = (if i < 0 then CHR ''-'' # digitsOfNat (nat (- i)) else digitsOfNat (nat i))"

section \<open>The Bayesian diagnostic engine\<close>

datatype EvidenceType = symptom | test_result | demographic | history

text \<open>
  \<open>value: string | number | boolean\<close>. A numeric evidence value is an integral number
  here, so that \<open>String(value)\<close> is its decimal numeral.
\<close>

datatype EvidenceValue = VString string | VNumber int | VBoolean bool

text \<open>
  \<open>Omit<DiagnosticEvidence, 'timestamp'>\<close> is the evidence without its timestamp;
  the evidence proper extends it.
\<close>

record PotentialEvidence =
  ev_type :: EvidenceType
  ev_name :: string
  ev_value :: EvidenceValue
  confidence :: number

record DiagnosticEvidence = PotentialEvidence +
  timestamp :: nat

record BayesianDiagnosis =
  condition :: string
  priorProbability :: number
  posteriorProbability :: number
  likelihood :: number
  evidence :: "DiagnosticEvidence list"
  icd10Code :: "string option"

record BayesianUpdate =
  diagnosis :: string
  oldProbability :: number
  newProbability :: number
  upd_evidence :: DiagnosticEvidence
  likelihoodRatio :: number

text \<open>
  A JavaScript \<open>Map\<close> iterates in insertion order, and \<open>set\<close> on a key that is
  present keeps its place: an association list with \<open>mapSet\<close> as the only writer.
\<close>

fun mapSet :: "('k \<times> 'v) list \<Rightarrow> 'k \<Rightarrow> 'v \<Rightarrow> ('k \<times> 'v) list" where
  "mapSet [] k v = [(k, v)]"
| "mapSet ((k', v') # kvs) k v =
     (if k' = k then (k, v) # kvs else (k', v') # mapSet kvs k v)"

text \<open>The engine: the belief store and the likelihood table (condition, then evidence key).\<close>

record BayesianDiagnosticEngine =
  diagnoses :: "(string \<times> BayesianDiagnosis) list"
  evidenceBase :: "string \<rightharpoonup> (string \<rightharpoonup> number)"

definition setLikelihood ::
  "string \<Rightarrow> string \<Rightarrow> number \<Rightarrow> (string \<rightharpoonup> (string \<rightharpoonup> number)) \<Rightarrow> (string \<rightharpoonup> (string \<rightharpoonup> number))"
where
  "setLikelihood cond key lr base =
     (let inner = (case base cond of None \<Rightarrow> Map.empty | Some m \<Rightarrow> m)
      in base(cond \<mapsto> inner(key \<mapsto> lr)))"

definition initializeEvidenceBase :: "string \<rightharpoonup> (string \<rightharpoonup> number)" where
  "initializeEvidenceBase =
    (setLikelihood ''gastroenteritis'' ''troponin_elevated'' (Num 0.05)
    (setLikelihood ''gastroenteritis'' ''chest_pain_crushing'' (Num 0.1)
    (setLikelihood ''gastroenteritis'' ''fever'' (Num 2.0)
    (setLikelihood ''gastroenteritis'' ''abdominal_pain'' (Num 5.0)
    (setLikelihood ''gastroenteritis'' ''diarrhea'' (Num 8.0)
    (setLikelihood ''gastroenteritis'' ''vomiting'' (Num 6.0)
    (setLikelihood ''gastroenteritis'' ''nausea'' (Num 4.0)
    (setLikelihood ''pneumonia'' ''troponin_elevated'' (Num 0.1)
    (setLikelihood ''pneumonia'' ''chest_pain_crushing'' (Num 0.2)
    (setLikelihood ''pneumonia'' ''chest_xray_infiltrate'' (Num 15.0)
    (setLikelihood ''pneumonia'' ''shortness_of_breath'' (Num 3.0)
    (setLikelihood ''pneumonia'' ''cough'' (Num 5.0)
    (setLikelihood ''pneumonia'' ''no_fever'' (Num 0.3)
    (setLikelihood ''pneumonia'' ''fever'' (Num 4.0)
    (setLikelihood ''myocardial_infarction'' ''fever'' (Num 0.3)
    (setLikelihood ''myocardial_infarction'' ''age_over_65'' (Num 2.5)
    (setLikelihood ''myocardial_infarction'' ''troponin_elevated'' (Num 20.0)
    (setLikelihood ''myocardial_infarction'' ''nausea'' (Num 2.0)
    (setLikelihood ''myocardial_infarction'' ''diaphoresis'' (Num 3.0)
    (setLikelihood ''myocardial_infarction'' ''chest_pain_crushing'' (Num 8.0)
      Map.empty))))))))))))))))))))"

text \<open>The constructor: an empty belief store and the built-in likelihood table.\<close>

definition newEngine :: BayesianDiagnosticEngine where
  "newEngine = \<lparr>diagnoses = [], evidenceBase = initializeEvidenceBase\<rparr>"

definition initializeDiagnosis ::
  "string \<Rightarrow> number \<Rightarrow> string option \<Rightarrow> BayesianDiagnosticEngine \<Rightarrow> BayesianDiagnosticEngine"
where
  "initializeDiagnosis cond prior code eng =
     eng\<lparr>diagnoses := mapSet (diagnoses eng) cond
       \<lparr>condition = cond, priorProbability = prior, posteriorProbability = prior,
        likelihood = Num 1.0, evidence = [], icd10Code = code\<rparr>\<rparr>"

text \<open>
  \<open>String(evidence.value)\<close>. A numeric value is modelled when it is an integer below
  \<open>10^21\<close> in magnitude, which JavaScript prints in plain decimal digits; fractions and
  the exponent notation of larger numbers are not modelled.
\<close>

definition stringOfValue :: "EvidenceValue \<Rightarrow> string" where
  "stringOfValue v =
     (case v of
        VString s \<Rightarrow> s
      | VNumber i \<Rightarrow> stringOfInt i
      | VBoolean b \<Rightarrow> (if b then ''true'' else ''false''))"

definition generateEvidenceKey :: "DiagnosticEvidence \<Rightarrow> string" where
  "generateEvidenceKey ev =
     (let normalizedName = replaceWhitespace (toLowerCase (ev_name ev));
          normalizedValue = toLowerCase (stringOfValue (ev_value ev))
      in case ev_value ev of
           VBoolean b \<Rightarrow> (if b then normalizedName else ''no_'' @ normalizedName)
         | _ \<Rightarrow>
             (if normalizedValue = ''true'' \<or> normalizedValue = ''positive''
                 \<or> normalizedValue = ''elevated''
              then normalizedName
              else normalizedName @ ''_'' @ normalizedValue))"

definition calculateLikelihoodRatio ::
  "BayesianDiagnosticEngine \<Rightarrow> string \<Rightarrow> DiagnosticEvidence \<Rightarrow> number"
where
  "calculateLikelihoodRatio eng cond ev =
     (let evidenceKey = generateEvidenceKey ev
      in case evidenceBase eng cond of
           None \<Rightarrow> Num 1.0
         | Some conditionEvidence \<Rightarrow>
             (case conditionEvidence evidenceKey of
                None \<Rightarrow> Num 1.0
              | Some lr \<Rightarrow> js_add (Num 1) (js_mul (js_sub lr (Num 1)) (confidence ev))))"

text \<open>
  Bayes' rule in odds form followed by the clamp, as both \<open>updateWithEvidence\<close> and
  \<open>calculateHypotheticalUpdates\<close> write it out. A local name of the source that is
  also a field of a record is shortened here (\<open>cond\<close>, \<open>lr\<close>, \<open>oldP\<close>, \<open>newP\<close>).
\<close>

definition clampedPosterior :: "number \<Rightarrow> number \<Rightarrow> number" where
  "clampedPosterior lr oldP =
     (let oldOdds = js_div oldP (js_sub (Num 1) oldP);
          newOdds = js_mul lr oldOdds;
          newP = js_div newOdds (js_add (Num 1) newOdds)
      in js_min (js_max newP (Num 0.001)) (Num 0.999))"

text \<open>One turn of the loop of \<open>updateWithEvidence\<close>: the record after it, and its report.\<close>

definition updateDiagnosis ::
  "BayesianDiagnosticEngine \<Rightarrow> DiagnosticEvidence \<Rightarrow> string \<times> BayesianDiagnosis
     \<Rightarrow> (string \<times> BayesianDiagnosis) \<times> BayesianUpdate"
where
  "updateDiagnosis eng ev entry =
     (let cond = fst entry; d = snd entry;
          lr = calculateLikelihoodRatio eng cond ev;
          oldP = posteriorProbability d;
          d' = d\<lparr>posteriorProbability := clampedPosterior lr oldP,
                 evidence := evidence d @ [ev],
                 likelihood := js_mul (likelihood d) lr\<rparr>
      in ((cond, d'),
          \<lparr>diagnosis = cond, oldProbability = oldP,
           newProbability = posteriorProbability d', upd_evidence = ev,
           likelihoodRatio = lr\<rparr>))"

definition totalProbability :: "BayesianDiagnosticEngine \<Rightarrow> number" where
  "totalProbability eng =
     foldl (\<lambda>total d. js_add total (posteriorProbability d)) (Num 0) (map snd (diagnoses eng))"

definition scalePosterior :: "number \<Rightarrow> string \<times> BayesianDiagnosis \<Rightarrow> string \<times> BayesianDiagnosis" where
  "scalePosterior factor entry =
     (fst entry, (snd entry)\<lparr>posteriorProbability := js_mul (posteriorProbability (snd entry)) factor\<rparr>)"

definition normalizeProbabilities :: "BayesianDiagnosticEngine \<Rightarrow> BayesianDiagnosticEngine" where
  "normalizeProbabilities eng =
     (if js_gt (totalProbability eng) (Num 1.0)
      then let normalizationFactor = js_div (Num 0.95) (totalProbability eng)
           in eng\<lparr>diagnoses := map (scalePosterior normalizationFactor) (diagnoses eng)\<rparr>
      else eng)"

text \<open>
  \<open>updateWithEvidence\<close> returns the reports and leaves the engine updated: the loop
  runs over every tracked condition in insertion order, then the store is normalized.
\<close>

definition updateWithEvidence ::
  "DiagnosticEvidence \<Rightarrow> BayesianDiagnosticEngine \<Rightarrow> BayesianUpdate list \<times> BayesianDiagnosticEngine"
where
  "updateWithEvidence ev eng =
     (let results = map (updateDiagnosis eng ev) (diagnoses eng);
          updates = map snd results;
          eng' = eng\<lparr>diagnoses := map fst results\<rparr>
      in (updates, normalizeProbabilities eng'))"

definition getDiagnosis :: "BayesianDiagnosticEngine \<Rightarrow> string \<Rightarrow> BayesianDiagnosis option" where
  "getDiagnosis eng cond = map_of (diagnoses eng) cond"

text \<open>
  The methods below only read the engine. They are written in the same state-passing
  style as \<open>updateWithEvidence\<close>, returning the engine they leave behind, so that
  what they do to the belief store is a statement about them.
\<close>

text \<open>The entropy loop shared by \<open>calculateEntropy\<close> and \<open>calculateEntropyFromUpdates\<close>.\<close>

definition entropyOf :: "number list \<Rightarrow> number" where
  "entropyOf probabilities =
     (let total = foldl js_add (Num 0) probabilities
      in foldl (\<lambda>entropy prob.
                  if js_gt prob (Num 0)
                  then let normalizedProb = js_div prob total
                       in js_sub entropy (js_mul normalizedProb (js_log2 normalizedProb))
                  else entropy)
               (Num 0) probabilities)"

definition calculateEntropy :: "BayesianDiagnosticEngine \<Rightarrow> number \<times> BayesianDiagnosticEngine" where
  "calculateEntropy eng =
     (entropyOf (map (\<lambda>entry. posteriorProbability (snd entry)) (diagnoses eng)), eng)"

definition hypotheticalUpdate ::
  "BayesianDiagnosticEngine \<Rightarrow> DiagnosticEvidence \<Rightarrow> string \<times> BayesianDiagnosis \<Rightarrow> BayesianUpdate"
where
  "hypotheticalUpdate eng ev entry =
     (let cond = fst entry; d = snd entry;
          lr = calculateLikelihoodRatio eng cond ev;
          oldP = posteriorProbability d
      in \<lparr>diagnosis = cond, oldProbability = oldP,
          newProbability = clampedPosterior lr oldP, upd_evidence = ev,
          likelihoodRatio = lr\<rparr>)"

definition calculateHypotheticalUpdates ::
  "DiagnosticEvidence \<Rightarrow> BayesianDiagnosticEngine \<Rightarrow> BayesianUpdate list \<times> BayesianDiagnosticEngine"
where
  "calculateHypotheticalUpdates ev eng = (map (hypotheticalUpdate eng ev) (diagnoses eng), eng)"

definition calculateEntropyFromUpdates :: "BayesianUpdate list \<Rightarrow> number" where
  "calculateEntropyFromUpdates updates = entropyOf (map newProbability updates)"

definition calculateOutcomeProbability :: "DiagnosticEvidence \<Rightarrow> number" where
  "calculateOutcomeProbability ev = Num 0.5"

text \<open>
  One turn of the loop over the outcomes \<open>[true, false]\<close>; \<open>now outcome\<close> is the
  value of \<open>new Date()\<close> in the turn of that outcome. The pair carries the running
  expected entropy and the engine.
\<close>

definition gainStep ::
  "PotentialEvidence \<Rightarrow> (bool \<Rightarrow> nat) \<Rightarrow> number \<times> BayesianDiagnosticEngine \<Rightarrow> bool
     \<Rightarrow> number \<times> BayesianDiagnosticEngine"
where
  "gainStep potentialEvidence now acc outcome =
     (let tempEvidence =
            \<lparr>ev_type = ev_type potentialEvidence, ev_name = ev_name potentialEvidence,
             ev_value = VBoolean outcome, confidence = confidence potentialEvidence,
             timestamp = now outcome\<rparr>;
          (hypotheticalUpdates, eng1) = calculateHypotheticalUpdates tempEvidence (snd acc);
          entropyAfterEvidence = calculateEntropyFromUpdates hypotheticalUpdates;
          outcomeWeight = calculateOutcomeProbability tempEvidence
      in (js_add (fst acc) (js_mul outcomeWeight entropyAfterEvidence), eng1))"

definition calculateInformationGain ::
  "PotentialEvidence \<Rightarrow> (bool \<Rightarrow> nat) \<Rightarrow> BayesianDiagnosticEngine \<Rightarrow> number \<times> BayesianDiagnosticEngine"
where
  "calculateInformationGain potentialEvidence now eng =
     (let (currentEntropy, eng1) = calculateEntropy eng;
          (expectedEntropyAfterEvidence, eng2) =
             foldl (gainStep potentialEvidence now) (Num 0, eng1) [True, False]
      in (js_sub currentEntropy expectedEntropyAfterEvidence, eng2))"

definition reset :: "BayesianDiagnosticEngine \<Rightarrow> BayesianDiagnosticEngine" where
  "reset eng = eng\<lparr>diagnoses := []\<rparr>"

text \<open>The finite value of a number, for stating bounds (0 on the special values).\<close>

fun numVal :: "number \<Rightarrow> real" where
  "numVal (Num a) = a"
| "numVal PosInfinity = 0"
| "numVal NegInfinity = 0"
| "numVal NaN = 0"

section \<open>The workflow state\<close>

text \<open>
  The state of \<open>medical_state.ts\<close>, with the two counters the graph and its tests
  also carry (\<open>interactionRound\<close>, \<open>requiredInformationGathered\<close>). The workflow's
  numbers are finite and none of its operations leaves the finite numbers, so they are
  reals; the round counters are natural numbers.
\<close>

datatype DiagnosticPhase =
    case_presentation | initial_assessment | information_gathering
  | patient_interaction | test_selection | deliberation | final_diagnosis

datatype PhysicianRole = hypothesis | test_chooser | challenger | stewardship | checklist

datatype QuestionCategory =
    cat_history | cat_symptoms | cat_examination | cat_family | cat_social
  | cat_medications | cat_allergies

datatype Priority = high | medium | low

text \<open>The content of a message is a string or a structured value.\<close>

datatype MessageContent = Text string | Structured

datatype BaseMessage = HumanMessage MessageContent | AIMessage MessageContent

fun content :: "BaseMessage \<Rightarrow> MessageContent" where
  "content (HumanMessage c) = c"
| "content (AIMessage c) = c"

record DiagnosisHypothesis =
  dh_condition :: string
  probability :: real
  supportingEvidence :: "string list"
  reasoning :: string
  dh_icd10Code :: "string option"

record Demographics =
  age :: real
  gender :: string
  occupation :: "string option"

record CaseInformation =
  patientId :: string
  demographics :: Demographics
  chiefComplaint :: string
  historyOfPresentIllness :: "string option"
  pastMedicalHistory :: "string list option"
  medications :: "string list option"
  allergies :: "string list option"
  familyHistory :: "string list option"
  socialHistory :: "string option"
  reviewOfSystems :: "(string \<times> string) list option"
  physicalExam :: "(string \<times> string) list option"

record TestResult =
  testType :: string
  testName :: string
  result :: string
  cost :: real
  diagnosticValue :: real
  requestedBy :: string
  tr_timestamp :: nat

record PatientQuestion =
  q_id :: string
  requestingAgent :: PhysicianRole
  category :: QuestionCategory
  question :: string
  priority :: Priority
  q_timestamp :: nat

record PatientResponse =
  questionId :: string
  response :: string
  r_timestamp :: nat

record CostAnalysis =
  estimatedCost :: real
  costBenefit :: string

record AgentTurn =
  agentRole :: PhysicianRole
  turn_reasoning :: string
  recommendations :: "string list"
  diagnosisUpdates :: "DiagnosisHypothesis list option"
  testsRequested :: "string list option"
  questionsRequested :: "PatientQuestion list option"
  costAnalysis :: "CostAnalysis option"
  biasesIdentified :: "string list option"

record MedicalDiagnosticState =
  messages :: "BaseMessage list"
  differentialDiagnoses :: "DiagnosisHypothesis list"
  availableCaseInfo :: CaseInformation
  revealedInformation :: "string list"
  diagnosticTests :: "TestResult list"
  cumulativeCost :: real
  costBudget :: real
  currentPhase :: DiagnosticPhase
  debateRound :: nat
  agentTurns :: "AgentTurn list"
  pendingQuestions :: "PatientQuestion list"
  awaitingUserInput :: bool
  questionHistory :: "PatientQuestion list"
  userResponses :: "PatientResponse list"
  interactionRound :: nat
  requiredInformationGathered :: "string list"
  confidenceLevel :: real
  readyForDiagnosis :: bool
  finalDiagnosis :: "DiagnosisHypothesis option"
  biasesDetected :: "string list"
  reasoningQuality :: real

text \<open>
  A node returns a partial state. The record holds the channels that the nodes
  modelled here write; \<open>None\<close> is a key that the returned object does not have. The
  key \<open>finalDiagnosis\<close> can be present with the value \<open>undefined\<close>.
\<close>

record StateUpdate =
  upd_messages :: "BaseMessage list option"
  upd_availableCaseInfo :: "CaseInformation option"
  upd_costBudget :: "real option"
  upd_currentPhase :: "DiagnosticPhase option"
  upd_confidenceLevel :: "real option"
  upd_readyForDiagnosis :: "bool option"
  upd_finalDiagnosis :: "DiagnosisHypothesis option option"
  upd_reasoningQuality :: "real option"

definition emptyUpdate :: StateUpdate where
  "emptyUpdate =
     \<lparr>upd_messages = None, upd_availableCaseInfo = None, upd_costBudget = None,
      upd_currentPhase = None, upd_confidenceLevel = None, upd_readyForDiagnosis = None,
      upd_finalDiagnosis = None, upd_reasoningQuality = None\<rparr>"

text \<open>
  The reducers of \<open>MedicalDiagnosticAnnotation\<close>. \<open>{...current, ...update}\<close> on the
  case information: every key of the update wins, a key it lacks keeps its value.
\<close>

definition orElse :: "'a option \<Rightarrow> 'a option \<Rightarrow> 'a option" where
  "orElse update current = (case update of None \<Rightarrow> current | Some v \<Rightarrow> Some v)"

definition mergeCaseInfo :: "CaseInformation \<Rightarrow> CaseInformation \<Rightarrow> CaseInformation" where
  "mergeCaseInfo current update =
     \<lparr>patientId = patientId update,
      demographics = demographics update,
      chiefComplaint = chiefComplaint update,
      historyOfPresentIllness = orElse (historyOfPresentIllness update) (historyOfPresentIllness current),
      pastMedicalHistory = orElse (pastMedicalHistory update) (pastMedicalHistory current),
      medications = orElse (medications update) (medications current),
      allergies = orElse (allergies update) (allergies current),
      familyHistory = orElse (familyHistory update) (familyHistory current),
      socialHistory = orElse (socialHistory update) (socialHistory current),
      reviewOfSystems = orElse (reviewOfSystems update) (reviewOfSystems current),
      physicalExam = orElse (physicalExam update) (physicalExam current)\<rparr>"

text \<open>\<open>update || current\<close> on a number: zero is falsy.\<close>

definition numberOr :: "real \<Rightarrow> real \<Rightarrow> real" where
  "numberOr update current = (if update \<noteq> 0 then update else current)"

definition applyUpdate :: "MedicalDiagnosticState \<Rightarrow> StateUpdate \<Rightarrow> MedicalDiagnosticState" where
  "applyUpdate s u =
     s\<lparr>messages :=
         (case upd_messages u of None \<Rightarrow> messages s | Some ms \<Rightarrow> messages s @ ms),
       availableCaseInfo :=
         (case upd_availableCaseInfo u of
            None \<Rightarrow> availableCaseInfo s
          | Some info \<Rightarrow> mergeCaseInfo (availableCaseInfo s) info),
       costBudget :=
         (case upd_costBudget u of None \<Rightarrow> costBudget s | Some b \<Rightarrow> numberOr b (costBudget s)),
       currentPhase :=
         (case upd_currentPhase u of None \<Rightarrow> currentPhase s | Some p \<Rightarrow> p),
       confidenceLevel :=
         (case upd_confidenceLevel u of
            None \<Rightarrow> confidenceLevel s
          | Some c \<Rightarrow> numberOr c (confidenceLevel s)),
       readyForDiagnosis :=
         (case upd_readyForDiagnosis u of None \<Rightarrow> readyForDiagnosis s | Some r \<Rightarrow> r),
       finalDiagnosis :=
         (case upd_finalDiagnosis u of
            Some (Some d) \<Rightarrow> Some d
          | _ \<Rightarrow> finalDiagnosis s),
       reasoningQuality :=
         (case upd_reasoningQuality u of
            None \<Rightarrow> reasoningQuality s
          | Some q \<Rightarrow> numberOr q (reasoningQuality s))\<rparr>"

section \<open>The question policy\<close>

text \<open>\<open>xs.slice(-n)\<close>: the last \<open>n\<close> elements, all of them when there are fewer.\<close>

definition sliceLast :: "nat \<Rightarrow> 'a list \<Rightarrow> 'a list" where
  "sliceLast n xs = drop (length xs - n) xs"

definition signalsRequest :: "string \<Rightarrow> bool" where
  "signalsRequest rec =
     (includesStr (toLowerCase rec) ''need'' \<or> includesStr (toLowerCase rec) ''require''
      \<or> includesStr (toLowerCase rec) ''ask'' \<or> includesStr (toLowerCase rec) ''clarify'')"

definition hasInfoRequests :: "MedicalDiagnosticState \<Rightarrow> bool" where
  "hasInfoRequests s =
     list_ex (\<lambda>turn. list_ex signalsRequest (recommendations turn)) (sliceLast 2 (agentTurns s))"

text \<open>
  The repository holds two generations of the class \<open>PatientQuestionAgent\<close>. The graph
  whose \<open>routeWorkflow\<close> is modelled below (with \<open>interactionRound\<close> and the floor of
  three interaction rounds) belongs with the later one, the class
  \<open>PatientQuestionAgent\<close> that follows the simplified graph in
  \<open>medical_graph_simplified.ts\<close>. Its \<open>shouldGenerateQuestions\<close> and the
  \<open>hasMissingEssentialInfo\<close> that it calls are embedded here, check by check.
\<close>

definition gathered :: "MedicalDiagnosticState \<Rightarrow> string \<Rightarrow> bool" where
  "gathered s item = (item \<in> set (requiredInformationGathered s))"

definition emptyOrAbsent :: "string list option \<Rightarrow> bool" where
  "emptyOrAbsent xs = (case xs of None \<Rightarrow> True | Some l \<Rightarrow> length l = 0)"

definition hasMissingEssentialInfo :: "MedicalDiagnosticState \<Rightarrow> bool" where
  "hasMissingEssentialInfo s =
     (let caseInfo = availableCaseInfo s
      in if age (demographics caseInfo) = 0 then True
         else if gender (demographics caseInfo) = [] \<or> gender (demographics caseInfo) = ''unknown''
           then True
         else if \<not> gathered s ''medications'' \<and> emptyOrAbsent (medications caseInfo) then True
         else if \<not> gathered s ''allergies'' \<and> emptyOrAbsent (allergies caseInfo) then True
         else if \<not> gathered s ''family_history'' \<and> emptyOrAbsent (familyHistory caseInfo) then True
         else if \<not> gathered s ''symptom_timeline'' \<and>
                 (case historyOfPresentIllness caseInfo of
                    None \<Rightarrow> True
                  | Some h \<Rightarrow>
                      h = [] \<or>
                      (\<not> includesStr (toLowerCase h) ''started''
                       \<and> \<not> includesStr (toLowerCase h) ''began''))
           then True
         else if interactionRound s \<ge> 2 \<and> \<not> gathered s ''symptom_severity'' then True
         else False)"

definition shouldGenerateQuestions :: "MedicalDiagnosticState \<Rightarrow> bool" where
  "shouldGenerateQuestions s =
     (if length (pendingQuestions s) > 0 then False
      else if interactionRound s < 3 then True
      else if confidenceLevel s < 0.4 then True
      else if length (differentialDiagnoses s) > 4 then True
      else if hasMissingEssentialInfo s then True
      else if hasInfoRequests s then True
      else if currentPhase s = information_gathering then True
      else if interactionRound s < 5 \<and> length (differentialDiagnoses s) > 2 then True
      else False)"

text \<open>
  The earlier generation, \<open>shouldGenerateQuestions\<close> of \<open>patient_question_agent.ts\<close>,
  which does not read \<open>interactionRound\<close>: it tests the confidence first and the
  pending questions last. No property of the routing below refers to it.
\<close>

definition shouldGenerateQuestions_earlier :: "MedicalDiagnosticState \<Rightarrow> bool" where
  "shouldGenerateQuestions_earlier s =
     (if confidenceLevel s < 0.6 then True
      else if length (differentialDiagnoses s) > 4 then True
      else if hasInfoRequests s then True
      else if currentPhase s = information_gathering then True
      else if length (pendingQuestions s) > 0 then False
      else False)"

section \<open>Routing\<close>

text \<open>
  \<open>routeWorkflow\<close> is the conditional edge that leaves the debate node; it returns the
  name of the next node. It asks the question policy of the later
  \<open>PatientQuestionAgent\<close>.
\<close>

definition testsWereRequested :: "MedicalDiagnosticState \<Rightarrow> bool" where
  "testsWereRequested s =
     (if agentTurns s = [] then False
      else (case testsRequested (last (agentTurns s)) of
              None \<Rightarrow> False
            | Some tests \<Rightarrow> length tests > 0))"

definition routeWorkflow :: "MedicalDiagnosticState \<Rightarrow> string" where
  "routeWorkflow s =
     (if awaitingUserInput s then ''patient_interaction''
      else if shouldGenerateQuestions s then ''patient_interaction''
      else if readyForDiagnosis s \<or> currentPhase s = final_diagnosis then
        (if interactionRound s < 3 \<and> confidenceLevel s < 0.8 then ''patient_interaction''
         else ''final_assessment'')
      else if cumulativeCost s \<ge> costBudget s then ''final_assessment''
      else if debateRound s \<ge> 5 then
        (if interactionRound s < 3 \<or> shouldGenerateQuestions s then ''patient_interaction''
         else ''final_assessment'')
      else if debateRound s > 0 \<and> debateRound s mod 2 = 0 \<and> interactionRound s < 3
        then ''patient_interaction''
      else if testsWereRequested s then ''diagnostic_tools''
      else ''medical_debate'')"

section \<open>Case initialization\<close>

text \<open>
  \<open>initializeCase\<close> is the entry node. Its two outside inputs are parameters: \<open>extract\<close>
  is \<open>extractCaseInformation\<close> (the reasoning oracle; \<open>None\<close> when the call throws) and
  \<open>now\<close> is \<open>Date.now()\<close>.
\<close>

definition fallbackCaseInfo :: "nat \<Rightarrow> string \<Rightarrow> string \<Rightarrow> CaseInformation" where
  "fallbackCaseInfo now complaint illness =
     \<lparr>patientId = ''CASE_'' @ digitsOfNat now,
      demographics = \<lparr>age = 45, gender = ''unknown'', occupation = None\<rparr>,
      chiefComplaint = complaint,
      historyOfPresentIllness = Some illness,
      pastMedicalHistory = Some [],
      medications = Some [],
      allergies = Some [],
      familyHistory = Some [],
      socialHistory = Some [],
      reviewOfSystems = None,
      physicalExam = None\<rparr>"

definition initialUpdate :: "MedicalDiagnosticState \<Rightarrow> CaseInformation \<Rightarrow> string \<Rightarrow> StateUpdate" where
  "initialUpdate s info announcement =
     emptyUpdate\<lparr>upd_availableCaseInfo := Some info,
                 upd_currentPhase := Some initial_assessment,
                 upd_costBudget := Some 1000,
                 upd_messages := Some (messages s @ [AIMessage (Text announcement)])\<rparr>"

definition initializeCase ::
  "(string \<Rightarrow> CaseInformation option) \<Rightarrow> nat \<Rightarrow> MedicalDiagnosticState \<Rightarrow> StateUpdate"
where
  "initializeCase extract now s =
     (if patientId (availableCaseInfo s) \<noteq> [] then emptyUpdate
      else
        let caseText =
              (if messages s = [] then []
               else (case content (last (messages s)) of Text t \<Rightarrow> t | Structured \<Rightarrow> []))
        in if caseText = [] \<or> length (trim caseText) = 0 then
             (let info = fallbackCaseInfo now ''Patient case presentation'' ''Initial case presentation''
              in initialUpdate s info
                   (''Case initialized: '' @ patientId info @ '' - Please provide patient information''))
           else
             (case extract caseText of
                Some caseInfo \<Rightarrow>
                  initialUpdate s caseInfo
                    (''Case initialized: '' @ patientId caseInfo @ '' - '' @ chiefComplaint caseInfo)
              | None \<Rightarrow>
                  (let info = fallbackCaseInfo now (take 100 caseText) caseText
                   in initialUpdate s info
                        (''Case initialized with basic info: '' @ patientId info))))"

section \<open>The chain of debate: folding and synthesis\<close>

record DebateConfiguration =
  maxRounds :: nat
  confidenceThreshold :: real
  costBudgetLimit :: real
  participatingAgents :: "PhysicianRole list"

definition defaultDebateConfig :: DebateConfiguration where
  "defaultDebateConfig =
     \<lparr>maxRounds = 2, confidenceThreshold = 0.8, costBudgetLimit = 1000,
      participatingAgents = [hypothesis, test_chooser, challenger, stewardship, checklist]\<rparr>"

text \<open>\<open>xs.findIndex(p)\<close>: the first index whose element satisfies \<open>p\<close>.\<close>

fun findIndex :: "('a \<Rightarrow> bool) \<Rightarrow> 'a list \<Rightarrow> nat option" where
  "findIndex p [] = None"
| "findIndex p (x # xs) =
     (if p x then Some 0 else map_option Suc (findIndex p xs))"

definition mergeDiagnosis ::
  "DiagnosisHypothesis list \<Rightarrow> DiagnosisHypothesis \<Rightarrow> DiagnosisHypothesis list"
where
  "mergeDiagnosis ds update =
     (case findIndex (\<lambda>d. dh_condition d = dh_condition update) ds of
        Some existingIndex \<Rightarrow>
          ds[existingIndex :=
               (ds ! existingIndex)
                 \<lparr>probability := probability update,
                  supportingEvidence :=
                    supportingEvidence (ds ! existingIndex) @ supportingEvidence update,
                  reasoning := reasoning update\<rparr>]
      | None \<Rightarrow> ds @ [update])"

text \<open>
  \<open>sort((a, b) => b.probability - a.probability)\<close> is a stable sort into descending
  probability, which is what \<open>sort_key\<close> on the negated probability computes.
\<close>

definition updateDifferentialDiagnoses ::
  "DiagnosisHypothesis list \<Rightarrow> DiagnosisHypothesis list \<Rightarrow> DiagnosisHypothesis list"
where
  "updateDifferentialDiagnoses current updates =
     sort_key (\<lambda>d. - probability d) (foldl mergeDiagnosis current updates)"

definition shouldTerminateDebate :: "DebateConfiguration \<Rightarrow> MedicalDiagnosticState \<Rightarrow> bool" where
  "shouldTerminateDebate cfg s =
     (if confidenceLevel s \<ge> confidenceThreshold cfg then True
      else if cumulativeCost s \<ge> costBudgetLimit cfg then True
      else if readyForDiagnosis s then True
      else False)"

definition determineNextPhase ::
  "DebateConfiguration \<Rightarrow> MedicalDiagnosticState \<Rightarrow> real \<Rightarrow> DiagnosticPhase"
where
  "determineNextPhase cfg s conf =
     (if conf \<ge> confidenceThreshold cfg then final_diagnosis
      else (case currentPhase s of
              case_presentation \<Rightarrow> initial_assessment
            | initial_assessment \<Rightarrow> information_gathering
            | information_gathering \<Rightarrow> test_selection
            | test_selection \<Rightarrow> deliberation
            | deliberation \<Rightarrow> (if conf > 0.6 then final_diagnosis else information_gathering)
            | _ \<Rightarrow> final_diagnosis))"

definition assessReasoningQuality :: "MedicalDiagnosticState \<Rightarrow> real" where
  "assessReasoningQuality s =
     (let contributionScore = min (real (length (agentTurns s)) / 10) 1;
          diversityScore = min (real (length (differentialDiagnoses s)) / 5) 1;
          biasScore = min (real (length (biasesDetected s)) / 3) 1;
          costScore = (if cumulativeCost s > 0 then 0.3 else 0)
      in min (contributionScore * 0.3 + diversityScore * 0.2 + biasScore * 0.2 + costScore) 1)"

text \<open>
  \<open>x.toFixed(1)\<close> below \<open>10^21\<close>: the nearest number of tenths, the larger one on a
  tie, printed with one decimal. It is applied to the exact product
  \<open>confidence * 100\<close>; the double that the code prints can lie on the other side of a
  tie. Only the text of the closing message depends on it.
\<close>

definition toFixed1 :: "real \<Rightarrow> string" where
  "toFixed1 x =
     (let tenths = nat \<lfloor>10 * \<bar>x\<bar> + 1 / 2\<rfloor>
      in (if x < 0 then ''-'' else []) @ digitsOfNat (tenths div 10) @ ''.'' @ digitsOfNat (tenths mod 10))"

datatype error = ChecklistAgentUnavailable | OracleFailure

text \<open>
  \<open>synthesizeDebateResults\<close>. The agents of the debate are those of the configuration;
  \<open>respond\<close> is the checklist agent's call to the reasoning oracle (\<open>None\<close> when it
  throws), whose answer the synthesis does not use.
\<close>

definition synthesizeDebateResults ::
  "DebateConfiguration \<Rightarrow> (MedicalDiagnosticState \<Rightarrow> AgentTurn option) \<Rightarrow> MedicalDiagnosticState
     \<Rightarrow> error + StateUpdate"
where
  "synthesizeDebateResults cfg respond s =
     (if checklist \<notin> set (participatingAgents cfg) then Inl ChecklistAgentUnavailable
      else case respond s of
        None \<Rightarrow> Inl OracleFailure
      | Some _ \<Rightarrow>
          (let final =
                 (case differentialDiagnoses s of [] \<Rightarrow> None | d # _ \<Rightarrow> Some d);
               conf =
                 (case final of Some d \<Rightarrow> probability d / 100 | None \<Rightarrow> 0);
               nextPhase = determineNextPhase cfg s conf
           in Inr (emptyUpdate
                \<lparr>upd_finalDiagnosis := Some final,
                 upd_confidenceLevel := Some conf,
                 upd_readyForDiagnosis := Some (conf \<ge> confidenceThreshold cfg),
                 upd_currentPhase := Some nextPhase,
                 upd_reasoningQuality := Some (assessReasoningQuality s),
                 upd_messages :=
                   Some (messages s @
                     [AIMessage (Text (''Debate synthesis completed. Confidence: ''
                        @ toFixed1 (conf * 100) @ ''%''))])\<rparr>)))"

section \<open>Auxiliary notions and concrete cases\<close>

text \<open>
  The sum of the reported posteriors. The reports carry the posteriors as the loop of
  \<open>updateWithEvidence\<close> stored them, so this is the total that
  \<open>normalizeProbabilities\<close> compares with 1.0.
\<close>

definition reportedTotal :: "BayesianUpdate list \<Rightarrow> number" where
  "reportedTotal updates = foldl js_add (Num 0) (map newProbability updates)"

text \<open>The engine when the loop of \<open>updateWithEvidence\<close> is over, before the normalization.\<close>

definition afterLoop :: "DiagnosticEvidence \<Rightarrow> BayesianDiagnosticEngine \<Rightarrow> BayesianDiagnosticEngine" where
  "afterLoop ev eng =
     eng\<lparr>diagnoses := map (\<lambda>entry. fst (updateDiagnosis eng ev entry)) (diagnoses eng)\<rparr>"

text \<open>The first concrete case of the specification.\<close>

definition miEngine :: BayesianDiagnosticEngine where
  "miEngine = initializeDiagnosis ''myocardial_infarction'' (Num 0.02) None newEngine"

definition troponinEvidence :: "nat \<Rightarrow> DiagnosticEvidence" where
  "troponinEvidence t =
     \<lparr>ev_type = test_result, ev_name = ''troponin_elevated'', ev_value = VBoolean True,
      confidence = Num 0.95, timestamp = t\<rparr>"

text \<open>Three conditions whose priors sum to 0.901, and one symptom that is in the table.\<close>

definition crowdedEngine :: BayesianDiagnosticEngine where
  "crowdedEngine =
     initializeDiagnosis ''pneumonia'' (Num 0.001) None
       (initializeDiagnosis ''gastroenteritis'' (Num 0.45) None
         (initializeDiagnosis ''myocardial_infarction'' (Num 0.45) None newEngine))"

definition nauseaEvidence :: "nat \<Rightarrow> DiagnosticEvidence" where
  "nauseaEvidence t =
     \<lparr>ev_type = symptom, ev_name = ''nausea'', ev_value = VBoolean True,
      confidence = Num 1, timestamp = t\<rparr>"

text \<open>
  The state that the repository's integration tests build: a case in deliberation,
  debate round 1, no interaction round yet, confidence 0.6, cost 75 of a budget of 1000.
\<close>

definition testState :: MedicalDiagnosticState where
  "testState =
     \<lparr>messages = [HumanMessage (Text ''65-year-old male presents with crushing chest pain and diaphoresis. Troponin elevated.'')],
      differentialDiagnoses = [],
      availableCaseInfo =
        \<lparr>patientId = ''test-patient-001'',
         demographics = \<lparr>age = 65, gender = ''male'', occupation = None\<rparr>,
         chiefComplaint = ''crushing chest pain'',
         historyOfPresentIllness = Some ''Sudden onset crushing chest pain with diaphoresis 2 hours ago'',
         pastMedicalHistory = Some [], medications = Some [], allergies = Some [],
         familyHistory = Some [], socialHistory = Some [],
         reviewOfSystems = None, physicalExam = None\<rparr>,
      revealedInformation = [],
      diagnosticTests =
        [\<lparr>testType = ''blood'', testName = ''Troponin I'', result = ''elevated (0.8 ng/mL)'',
          cost = 75, diagnosticValue = 0.95, requestedBy = ''emergency_physician'',
          tr_timestamp = 0\<rparr>],
      cumulativeCost = 75,
      costBudget = 1000,
      currentPhase = deliberation,
      debateRound = 1,
      agentTurns = [],
      pendingQuestions = [],
      awaitingUserInput = False,
      questionHistory = [],
      userResponses = [],
      interactionRound = 0,
      requiredInformationGathered = [],
      confidenceLevel = 0.6,
      readyForDiagnosis = False,
      finalDiagnosis = None,
      biasesDetected = [],
      reasoningQuality = 0.8\<rparr>"

definition timelineQuestion :: PatientQuestion where
  "timelineQuestion =
     \<lparr>q_id = ''q_0_timeline'', requestingAgent = hypothesis, category = cat_symptoms,
      question = ''When did your symptoms first begin, and how have they changed over time?'',
      priority = high, q_timestamp = 0\<rparr>"

text \<open>
  The test state after three interaction rounds in which the patient has given the
  essential information.
\<close>

definition interviewedState :: MedicalDiagnosticState where
  "interviewedState =
     testState\<lparr>interactionRound := 3,
       requiredInformationGathered :=
         [''medications'', ''allergies'', ''family_history'', ''symptom_timeline'',
          ''symptom_severity'']\<rparr>"

text \<open>The defaults of the state annotation, with one case description as first message.\<close>

definition freshState :: MedicalDiagnosticState where
  "freshState =
     \<lparr>messages = [HumanMessage (Text ''55-year-old male presents with chest pain'')],
      differentialDiagnoses = [],
      availableCaseInfo =
        \<lparr>patientId = [],
         demographics = \<lparr>age = 0, gender = [], occupation = None\<rparr>,
         chiefComplaint = [],
         historyOfPresentIllness = None, pastMedicalHistory = None, medications = None,
         allergies = None, familyHistory = None, socialHistory = None,
         reviewOfSystems = None, physicalExam = None\<rparr>,
      revealedInformation = [],
      diagnosticTests = [],
      cumulativeCost = 0,
      costBudget = 1000,
      currentPhase = case_presentation,
      debateRound = 0,
      agentTurns = [],
      pendingQuestions = [],
      awaitingUserInput = False,
      questionHistory = [],
      userResponses = [],
      interactionRound = 0,
      requiredInformationGathered = [],
      confidenceLevel = 0,
      readyForDiagnosis = False,
      finalDiagnosis = None,
      biasesDetected = [],
      reasoningQuality = 0\<rparr>"

text \<open>A checklist agent whose oracle answers, and the two hypotheses of the integration tests.\<close>

definition answeringChecklist :: "MedicalDiagnosticState \<Rightarrow> AgentTurn option" where
  "answeringChecklist s =
     Some \<lparr>agentRole = checklist, turn_reasoning = ''Analysis complete.'', recommendations = [],
           diagnosisUpdates = None, testsRequested = None, questionsRequested = None,
           costAnalysis = None, biasesIdentified = None\<rparr>"

definition infarction70 :: DiagnosisHypothesis where
  "infarction70 =
     \<lparr>dh_condition = ''myocardial infarction'', probability = 70,
      supportingEvidence = [''chest pain'', ''elevated troponin''],
      reasoning = ''Classic presentation with biomarker elevation'', dh_icd10Code = None\<rparr>"

definition pneumonia15 :: DiagnosisHypothesis where
  "pneumonia15 =
     \<lparr>dh_condition = ''pneumonia'', probability = 15, supportingEvidence = [''age''],
      reasoning = ''Less likely given presentation'', dh_icd10Code = None\<rparr>"

text \<open>The test state once both hypotheses have been folded into its (empty) list.\<close>

definition rankedState :: MedicalDiagnosticState where
  "rankedState =
     testState\<lparr>differentialDiagnoses := updateDifferentialDiagnoses [] [pneumonia15, infarction70]\<rparr>"

section \<open>Properties of the engine\<close>

lemmas engine_defs =
  updateWithEvidence_def updateDiagnosis_def calculateLikelihoodRatio_def
  generateEvidenceKey_def replaceWhitespace_def toLowerCase_def lowerChar_def isSpace_def
  stringOfValue_def initializeDiagnosis_def newEngine_def initializeEvidenceBase_def
  setLikelihood_def js_sub_def clampedPosterior_def normalizeProbabilities_def
  totalProbability_def scalePosterior_def getDiagnosis_def reportedTotal_def Let_def

lemma clamp_cases:
  "js_min (js_max x (Num lo)) (Num hi) = NaN \<or>
   (\<exists>q. js_min (js_max x (Num lo)) (Num hi) = Num q \<and> (lo \<le> hi \<longrightarrow> lo \<le> q \<and> q \<le> hi))"
  by (cases x) auto

lemma clampedPosterior_range:
  "clampedPosterior lr p = NaN \<or> (\<exists>q. clampedPosterior lr p = Num q \<and> 0.001 \<le> q \<and> q \<le> 0.999)"
proof -
  have "(0.001::real) \<le> 0.999" by simp
  then show ?thesis
    using clamp_cases [of _ "0.001" "0.999"] unfolding clampedPosterior_def Let_def by blast
qed

lemma clampedPosterior_Num:
  "p \<noteq> 1 \<Longrightarrow> clampedPosterior (Num lr) (Num p) =
     Num (if 1 + lr * (p / (1 - p)) = 0 then 0.001
          else min (max (lr * (p / (1 - p)) / (1 + lr * (p / (1 - p)))) 0.001) 0.999)"
  by (auto simp: clampedPosterior_def js_sub_def Let_def)

lemma updateWithEvidence_split:
  "updateWithEvidence ev eng =
     (map (hypotheticalUpdate eng ev) (diagnoses eng), normalizeProbabilities (afterLoop ev eng))"
  by (simp add: updateWithEvidence_def updateDiagnosis_def hypotheticalUpdate_def afterLoop_def Let_def comp_def)

lemma afterLoop_entry:
  "fst (updateDiagnosis eng ev entry) =
     (fst entry, (snd entry)\<lparr>posteriorProbability := newProbability (hypotheticalUpdate eng ev entry),
         evidence := evidence (snd entry) @ [ev],
         likelihood := js_mul (likelihood (snd entry)) (likelihoodRatio (hypotheticalUpdate eng ev entry))\<rparr>)"
  by (simp add: updateDiagnosis_def hypotheticalUpdate_def Let_def)

lemma total_afterLoop:
  "totalProbability (afterLoop ev eng) = reportedTotal (map (hypotheticalUpdate eng ev) (diagnoses eng))"
  by (simp add: totalProbability_def afterLoop_def reportedTotal_def foldl_map afterLoop_entry comp_def)

lemma foldl_js_add_Num:
  "\<forall>n\<in>set ns. \<exists>q. n = Num q \<Longrightarrow> foldl js_add (Num a) ns = Num (a + sum_list (map numVal ns))"
  by (induction ns arbitrary: a) (auto simp: add.assoc)

lemma foldl_js_add_NaN: "foldl js_add NaN ns = NaN"
  by (induction ns) auto

lemma foldl_js_add_gt:
  assumes "\<forall>n\<in>set ns. n = NaN \<or> (\<exists>q. n = Num q)" and "js_gt (foldl js_add (Num a) ns) (Num b)"
  shows "\<forall>n\<in>set ns. \<exists>q. n = Num q"
  using assms
proof (induction ns arbitrary: a)
  case Nil then show ?case by simp
next
  case (Cons n ns)
  show ?case
  proof (cases n)
    case (Num q)
    with Cons show ?thesis by auto
  next
    case NaN
    with Cons.prems(2) show ?thesis by (simp add: foldl_js_add_NaN)
  qed (use Cons.prems(1) in auto)
qed


lemma diagnoses_normalize:
  "diagnoses (normalizeProbabilities eng) =
     (if js_gt (totalProbability eng) (Num 1)
      then map (scalePosterior (js_div (Num 0.95) (totalProbability eng))) (diagnoses eng)
      else diagnoses eng)"
  by (simp add: normalizeProbabilities_def Let_def)

lemma diagnoses_afterLoop:
  "diagnoses (afterLoop ev eng) = map (\<lambda>entry. fst (updateDiagnosis eng ev entry)) (diagnoses eng)"
  by (simp add: afterLoop_def)

lemma newProbability_hypothetical:
  "newProbability (hypotheticalUpdate eng ev entry) =
     clampedPosterior (calculateLikelihoodRatio eng (fst entry) ev) (posteriorProbability (snd entry))"
  by (simp add: hypotheticalUpdate_def Let_def)

lemma reported_all_Num:
  assumes "js_gt (reportedTotal (map (hypotheticalUpdate eng ev) ds)) (Num b)"
  shows "\<forall>e\<in>set ds. \<exists>q. newProbability (hypotheticalUpdate eng ev e) = Num q \<and> 0.001 \<le> q \<and> q \<le> 0.999"
proof -
  let ?ns = "map newProbability (map (hypotheticalUpdate eng ev) ds)"
  have "\<forall>n\<in>set ?ns. n = NaN \<or> (\<exists>q. n = Num q)"
    using clampedPosterior_range by (auto simp: newProbability_hypothetical)
  then have "\<forall>n\<in>set ?ns. \<exists>q. n = Num q"
    using assms unfolding reportedTotal_def by (rule foldl_js_add_gt)
  then have "\<forall>e\<in>set ds. \<exists>q. newProbability (hypotheticalUpdate eng ev e) = Num q"
    by simp
  then show ?thesis
    using clampedPosterior_range by (metis newProbability_hypothetical number.distinct(5))
qed

lemma scaled_differs:
  assumes "js_gt tot (Num 1)" and "0.001 \<le> c"
  shows "js_mul (Num c) (js_div (Num 0.95) tot) \<noteq> Num c"
proof (cases tot)
  case (Num t)
  with assms(1) have t: "1 < t" by simp
  then have "c * (0.95 / t) < c * 1"
    using assms(2) by (intro mult_strict_left_mono) (auto simp: field_simps)
  with Num t show ?thesis by auto
qed (use assms in auto)


text \<open>
  C5. An engine that tracks only \<open>myocardial_infarction\<close>, initialized with prior 0.02,
  is updated with the evidence \<open>troponin_elevated = true\<close> of confidence 0.95. The one
  report carries the adjusted ratio \<open>1 + 19 * 0.95 = 19.05\<close> and the new posterior
  \<open>381 / 1361\<close>, which is also the stored posterior and is 0.2799 to four decimals.
\<close>

theorem troponin_case:
  "map (\<lambda>u. (diagnosis u, oldProbability u, newProbability u, likelihoodRatio u))
       (fst (updateWithEvidence (troponinEvidence t) miEngine))
     = [(''myocardial_infarction'', Num 0.02, Num (381 / 1361), Num (1 + 19 * 0.95))]
   \<and> map (\<lambda>e. (fst e, posteriorProbability (snd e)))
       (diagnoses (snd (updateWithEvidence (troponinEvidence t) miEngine)))
     = [(''myocardial_infarction'', Num (381 / 1361))]
   \<and> (1 + 19 * 0.95 :: real) = 19.05
   \<and> \<bar>381 / 1361 - 0.2799\<bar> < (0.0001 :: real)"
  by (simp add: engine_defs troponinEvidence_def miEngine_def)

text \<open>
  C10. The report of a condition carries the clamped posterior that the loop stored,
  computed before the normalization. When the reported posteriors sum above 1.0 the
  normalization scales the stored posterior by \<open>0.95 / total\<close>, and the stored value
  then differs from the reported one; otherwise the two are equal.
\<close>

theorem reports_precede_normalization:
  assumes "updateWithEvidence ev eng = (updates, eng')" and "i < length (diagnoses eng)"
  shows "length updates = length (diagnoses eng) \<and> length (diagnoses eng') = length (diagnoses eng)
     \<and> diagnosis (updates ! i) = fst (diagnoses eng ! i)
     \<and> fst (diagnoses eng' ! i) = fst (diagnoses eng ! i)
     \<and> newProbability (updates ! i) =
         clampedPosterior (calculateLikelihoodRatio eng (fst (diagnoses eng ! i)) ev)
           (posteriorProbability (snd (diagnoses eng ! i)))
     \<and> (if js_gt (reportedTotal updates) (Num 1)
        then posteriorProbability (snd (diagnoses eng' ! i)) =
               js_mul (newProbability (updates ! i)) (js_div (Num 0.95) (reportedTotal updates))
             \<and> posteriorProbability (snd (diagnoses eng' ! i)) \<noteq> newProbability (updates ! i)
        else posteriorProbability (snd (diagnoses eng' ! i)) = newProbability (updates ! i))"
proof -
  let ?ds = "diagnoses eng"
  from assms(1) have u: "updates = map (hypotheticalUpdate eng ev) ?ds"
    and e: "eng' = normalizeProbabilities (afterLoop ev eng)"
    by (simp_all add: updateWithEvidence_split)
  have tot: "totalProbability (afterLoop ev eng) = reportedTotal updates"
    by (simp add: total_afterLoop u)
  have len: "length updates = length ?ds" "length (diagnoses eng') = length ?ds"
    by (simp_all add: u e diagnoses_normalize diagnoses_afterLoop)
  have ui: "updates ! i = hypotheticalUpdate eng ev (?ds ! i)"
    using assms(2) by (simp add: u)
  have names: "diagnosis (updates ! i) = fst (?ds ! i)" "fst (diagnoses eng' ! i) = fst (?ds ! i)"
    using assms(2)
    by (simp_all add: ui e diagnoses_normalize diagnoses_afterLoop afterLoop_entry scalePosterior_def)
      (simp add: hypotheticalUpdate_def Let_def)
  have np: "newProbability (updates ! i) =
         clampedPosterior (calculateLikelihoodRatio eng (fst (?ds ! i)) ev)
           (posteriorProbability (snd (?ds ! i)))"
    by (simp add: ui newProbability_hypothetical)
  have stored: "posteriorProbability (snd (diagnoses eng' ! i)) =
      (if js_gt (reportedTotal updates) (Num 1)
       then js_mul (newProbability (updates ! i)) (js_div (Num 0.95) (reportedTotal updates))
       else newProbability (updates ! i))"
    using assms(2)
    by (simp add: e diagnoses_normalize tot diagnoses_afterLoop afterLoop_entry scalePosterior_def ui)
  have differs: "js_mul (newProbability (updates ! i)) (js_div (Num 0.95) (reportedTotal updates))
      \<noteq> newProbability (updates ! i)" if gt: "js_gt (reportedTotal updates) (Num 1)"
  proof -
    from gt have "\<forall>e\<in>set ?ds. \<exists>q. newProbability (hypotheticalUpdate eng ev e) = Num q \<and> 0.001 \<le> q \<and> q \<le> 0.999"
      unfolding u by (rule reported_all_Num)
    moreover have "?ds ! i \<in> set ?ds" using assms(2) by simp
    ultimately obtain q where q: "newProbability (updates ! i) = Num q" "0.001 \<le> q"
      unfolding ui by blast
    show ?thesis unfolding q(1) using gt q(2) by (rule scaled_differs)
  qed
  show ?thesis
    using len names np stored differs by simp
qed

theorem reports_precede_normalization_witness:
  "2 < length (diagnoses crowdedEngine)
   \<and> js_gt (reportedTotal (fst (updateWithEvidence (nauseaEvidence 0) crowdedEngine))) (Num 1)
   \<and> newProbability (fst (updateWithEvidence (nauseaEvidence 0) crowdedEngine) ! 2) = Num 0.001
   \<and> posteriorProbability (snd (diagnoses (snd (updateWithEvidence (nauseaEvidence 0) crowdedEngine)) ! 2))
        \<noteq> newProbability (fst (updateWithEvidence (nauseaEvidence 0) crowdedEngine) ! 2)"
proof -
  have len: "2 < length (diagnoses crowdedEngine)"
    by (simp add: engine_defs crowdedEngine_def)
  have gt: "js_gt (reportedTotal (fst (updateWithEvidence (nauseaEvidence 0) crowdedEngine))) (Num 1)"
    by (simp add: engine_defs crowdedEngine_def nauseaEvidence_def)
  have np: "newProbability (fst (updateWithEvidence (nauseaEvidence 0) crowdedEngine) ! 2) = Num 0.001"
    by (simp add: engine_defs crowdedEngine_def nauseaEvidence_def)
  let ?r = "updateWithEvidence (nauseaEvidence 0) crowdedEngine"
  from reports_precede_normalization [OF surjective_pairing len, of "nauseaEvidence 0"]
  have "if js_gt (reportedTotal (fst ?r)) (Num 1)
        then posteriorProbability (snd (diagnoses (snd ?r) ! 2)) =
               js_mul (newProbability (fst ?r ! 2)) (js_div (Num 0.95) (reportedTotal (fst ?r)))
             \<and> posteriorProbability (snd (diagnoses (snd ?r) ! 2)) \<noteq> newProbability (fst ?r ! 2)
        else posteriorProbability (snd (diagnoses (snd ?r) ! 2)) = newProbability (fst ?r ! 2)"
    by blast
  with gt have "posteriorProbability (snd (diagnoses (snd ?r) ! 2)) \<noteq> newProbability (fst ?r ! 2)"
    by (metis (full_types))
  with len gt np show ?thesis by (simp only: simp_thms)
qed

lemma stored_posterior_at:
  assumes "i < length (diagnoses eng)"
  shows "posteriorProbability (snd (diagnoses (normalizeProbabilities (afterLoop ev eng)) ! i)) =
           (if js_gt (reportedTotal (map (hypotheticalUpdate eng ev) (diagnoses eng))) (Num 1)
            then js_mul (newProbability (hypotheticalUpdate eng ev (diagnoses eng ! i)))
                   (js_div (Num 0.95) (reportedTotal (map (hypotheticalUpdate eng ev) (diagnoses eng))))
            else newProbability (hypotheticalUpdate eng ev (diagnoses eng ! i)))"
  using assms
  by (simp add: diagnoses_normalize total_afterLoop diagnoses_afterLoop afterLoop_entry scalePosterior_def)

lemma reportedTotal_Num:
  assumes "\<forall>e\<in>set ds. \<exists>q. newProbability (hypotheticalUpdate eng ev e) = Num q"
  shows "reportedTotal (map (hypotheticalUpdate eng ev) ds) =
           Num (sum_list (map (\<lambda>e. numVal (newProbability (hypotheticalUpdate eng ev e))) ds))"
proof -
  have "\<forall>n\<in>set (map newProbability (map (hypotheticalUpdate eng ev) ds)). \<exists>q. n = Num q"
    using assms by simp
  from foldl_js_add_Num [OF this, of 0] show ?thesis
    by (simp add: reportedTotal_def comp_def)
qed

lemma finite_inputs_clamped:
  assumes "posteriorProbability (snd e) = Num p" and "p \<noteq> 1"
    and "calculateLikelihoodRatio eng (fst e) ev = Num r"
  shows "\<exists>q. newProbability (hypotheticalUpdate eng ev e) = Num q \<and> 0.001 \<le> q \<and> q \<le> 0.999"
proof -
  have "newProbability (hypotheticalUpdate eng ev e) \<noteq> NaN"
    using assms by (simp add: newProbability_hypothetical clampedPosterior_Num)
  then show ?thesis
    using clampedPosterior_range [of "calculateLikelihoodRatio eng (fst e) ev" "posteriorProbability (snd e)"]
    by (simp add: newProbability_hypothetical)
qed

lemma scaled_bounds:
  assumes "1 < t" and "0.001 \<le> q" and "q \<le> t"
  shows "0 < q * (0.95 / t) \<and> q * (0.95 / t) \<le> (0.95 :: real)"
proof -
  have "q * (0.95 / t) = 0.95 * (q / t)" by simp
  moreover have "0 < q / t" "q / t \<le> 1" using assms by (simp_all add: field_simps)
  ultimately show ?thesis by simp
qed

text \<open>
  C1, as the code has it. The loop clamps every posterior into \<open>[0.001, 0.999]\<close> and
  reports it, but the normalization that follows scales the stored posteriors by
  \<open>0.95 / total\<close> when their total exceeds 1.0 and does not clamp again. Take a belief
  store whose posteriors are finite and different from 1, and evidence whose adjusted
  ratios are finite and at most \<open>10^290\<close> in magnitude (the odds of a double other than 1
  are below \<open>10^16\<close> in magnitude, so the product of ratio and odds stays finite on
  doubles too). Then for every condition the reported posterior \<open>c\<close> is a finite
  number in \<open>[0.001, 0.999]\<close>, and the posterior \<open>q\<close> that is stored when
  \<open>updateWithEvidence\<close> returns is a finite number in \<open>(0, 0.999]\<close>: it is the reported
  one, or the scaled one, which is at most 0.95 and has no lower bound but 0.
\<close>

theorem posterior_bounds_after_update:
  assumes "updateWithEvidence ev eng = (updates, eng')"
    and "\<forall>e\<in>set (diagnoses eng). \<exists>p. posteriorProbability (snd e) = Num p \<and> p \<noteq> 1"
    and "\<forall>e\<in>set (diagnoses eng).
           \<exists>r. calculateLikelihoodRatio eng (fst e) ev = Num r \<and> \<bar>r\<bar> \<le> 10 ^ 290"
    and "i < length (diagnoses eng)"
  shows "\<exists>c q. newProbability (updates ! i) = Num c \<and> 0.001 \<le> c \<and> c \<le> 0.999
           \<and> posteriorProbability (snd (diagnoses eng' ! i)) = Num q \<and> 0 < q \<and> q \<le> 0.999
           \<and> (q = c \<or> q \<le> 0.95)"
proof -
  let ?ds = "diagnoses eng"
  let ?f = "\<lambda>e. numVal (newProbability (hypotheticalUpdate eng ev e))"
  from assms(1) have u: "updates = map (hypotheticalUpdate eng ev) ?ds"
    and e: "eng' = normalizeProbabilities (afterLoop ev eng)"
    by (simp_all add: updateWithEvidence_split)
  have clamped: "\<forall>e\<in>set ?ds. \<exists>q. newProbability (hypotheticalUpdate eng ev e) = Num q \<and> 0.001 \<le> q \<and> q \<le> 0.999"
    using assms(2,3) finite_inputs_clamped by blast
  then have tot: "reportedTotal updates = Num (sum_list (map ?f ?ds))"
    unfolding u by (intro reportedTotal_Num) blast
  have e_in: "?ds ! i \<in> set ?ds" using assms(4) by simp
  have ui: "updates ! i = hypotheticalUpdate eng ev (?ds ! i)"
    using assms(4) by (simp add: u)
  have st: "posteriorProbability (snd (diagnoses eng' ! i)) =
             (if js_gt (reportedTotal updates) (Num 1)
              then js_mul (newProbability (updates ! i)) (js_div (Num 0.95) (reportedTotal updates))
              else newProbability (updates ! i))"
    unfolding e u ui [unfolded u] using assms(4) by (rule stored_posterior_at)
  from clamped e_in obtain c where c: "newProbability (updates ! i) = Num c"
    "0.001 \<le> c" "c \<le> 0.999" unfolding ui by blast
  show ?thesis
  proof (cases "js_gt (reportedTotal updates) (Num 1)")
    case False
    with st c show ?thesis by simp
  next
    case True
    then have t: "1 < sum_list (map ?f ?ds)" by (simp add: tot)
    have nonneg: "\<And>x. x \<in> set (map ?f ?ds) \<Longrightarrow> 0 \<le> x"
      using clamped by fastforce
    have "?f (?ds ! i) \<in> set (map ?f ?ds)" using e_in by simp
    then have "?f (?ds ! i) \<le> sum_list (map ?f ?ds)" using nonneg by (rule member_le_sum_list)
    then have "c \<le> sum_list (map ?f ?ds)" using c(1) by (simp add: ui)
    from scaled_bounds [OF t c(2) this] st True c t show ?thesis
      by (simp add: tot)
  qed
qed

theorem posterior_bounds_after_update_witness:
  "0 < length (diagnoses miEngine)
   \<and> (\<exists>c q. newProbability (fst (updateWithEvidence (troponinEvidence 0) miEngine) ! 0) = Num c
          \<and> posteriorProbability
             (snd (diagnoses (snd (updateWithEvidence (troponinEvidence 0) miEngine)) ! 0)) = Num q
          \<and> 0.001 \<le> q \<and> q \<le> 0.999 \<and> q = c)
   \<and> 2 < length (diagnoses crowdedEngine)
   \<and> (\<exists>c q. newProbability (fst (updateWithEvidence (nauseaEvidence 0) crowdedEngine) ! 2) = Num c
          \<and> 0.001 \<le> c \<and> c \<le> 0.999
          \<and> posteriorProbability
             (snd (diagnoses (snd (updateWithEvidence (nauseaEvidence 0) crowdedEngine)) ! 2)) = Num q
          \<and> 0 < q \<and> q \<le> 0.95)"
proof -
  let ?a = "updateWithEvidence (troponinEvidence 0) miEngine"
  let ?b = "updateWithEvidence (nauseaEvidence 0) crowdedEngine"
  have "\<forall>e\<in>set (diagnoses miEngine). posteriorProbability (snd e) = Num 0.02"
    by (simp add: engine_defs miEngine_def)
  then have a2: "\<forall>e\<in>set (diagnoses miEngine). \<exists>p. posteriorProbability (snd e) = Num p \<and> p \<noteq> 1"
    by fastforce
  have "\<forall>e\<in>set (diagnoses miEngine). calculateLikelihoodRatio miEngine (fst e) (troponinEvidence 0) = Num 19.05"
    by (simp add: engine_defs miEngine_def troponinEvidence_def)
  moreover have "\<bar>19.05\<bar> \<le> (10 ^ 290 :: real)" by simp
  ultimately have a3: "\<forall>e\<in>set (diagnoses miEngine).
      \<exists>r. calculateLikelihoodRatio miEngine (fst e) (troponinEvidence 0) = Num r \<and> \<bar>r\<bar> \<le> 10 ^ 290"
    by blast
  have a4: "0 < length (diagnoses miEngine)"
    by (simp add: engine_defs miEngine_def)
  have a5: "posteriorProbability (snd (diagnoses (snd ?a) ! 0)) = Num (381 / 1361)"
    "newProbability (fst ?a ! 0) = Num (381 / 1361)"
    by (simp_all add: engine_defs miEngine_def troponinEvidence_def)
  have "\<forall>e\<in>set (diagnoses crowdedEngine).
          posteriorProbability (snd e) = Num 0.45 \<or> posteriorProbability (snd e) = Num 0.001"
    by (simp add: engine_defs crowdedEngine_def)
  then have b2: "\<forall>e\<in>set (diagnoses crowdedEngine). \<exists>p. posteriorProbability (snd e) = Num p \<and> p \<noteq> 1"
    by fastforce
  have "\<forall>e\<in>set (diagnoses crowdedEngine).
          calculateLikelihoodRatio crowdedEngine (fst e) (nauseaEvidence 0) \<in> {Num 1, Num 2, Num 4}"
    by (simp add: engine_defs crowdedEngine_def nauseaEvidence_def)
  moreover have "\<bar>1\<bar> \<le> (10 ^ 290 :: real)" "\<bar>2\<bar> \<le> (10 ^ 290 :: real)" "\<bar>4\<bar> \<le> (10 ^ 290 :: real)"
    by simp_all
  ultimately have b3: "\<forall>e\<in>set (diagnoses crowdedEngine).
      \<exists>r. calculateLikelihoodRatio crowdedEngine (fst e) (nauseaEvidence 0) = Num r \<and> \<bar>r\<bar> \<le> 10 ^ 290"
    by blast
  have b4: "2 < length (diagnoses crowdedEngine)"
    by (simp add: engine_defs crowdedEngine_def)
  have b5: "posteriorProbability (snd (diagnoses (snd ?b) ! 2)) = Num (25897 / 37827260)"
    "newProbability (fst ?b ! 2) = Num 0.001"
    by (simp_all add: engine_defs crowdedEngine_def nauseaEvidence_def)
  from posterior_bounds_after_update [OF surjective_pairing a2 a3 a4]
  obtain c q where A: "newProbability (fst ?a ! 0) = Num c" "0.001 \<le> c" "c \<le> 0.999"
    "posteriorProbability (snd (diagnoses (snd ?a) ! 0)) = Num q" "0 < q" "q \<le> 0.999"
    "q = c \<or> q \<le> 0.95" by blast
  from A(1,4) a5 have "q = c" by simp
  with A have A': "\<exists>c q. newProbability (fst ?a ! 0) = Num c
          \<and> posteriorProbability (snd (diagnoses (snd ?a) ! 0)) = Num q
          \<and> 0.001 \<le> q \<and> q \<le> 0.999 \<and> q = c" by blast
  from posterior_bounds_after_update [OF surjective_pairing b2 b3 b4]
  obtain c' q' where B: "newProbability (fst ?b ! 2) = Num c'" "0.001 \<le> c'" "c' \<le> 0.999"
    "posteriorProbability (snd (diagnoses (snd ?b) ! 2)) = Num q'" "0 < q'" "q' \<le> 0.999"
    "q' = c' \<or> q' \<le> 0.95" by blast
  from B(1,4) b5 have "c' = 0.001" "q' = 25897 / 37827260" by simp_all
  then have "q' \<le> 0.95" by simp
  with B have B': "\<exists>c q. newProbability (fst ?b ! 2) = Num c \<and> 0.001 \<le> c \<and> c \<le> 0.999
          \<and> posteriorProbability (snd (diagnoses (snd ?b) ! 2)) = Num q \<and> 0 < q \<and> q \<le> 0.95"
    by blast
  from a4 A' b4 B' show ?thesis by blast
qed

text \<open>
  C1 as stated fails. Priors 0.45, 0.45 and 0.001 and the symptom \<open>nausea\<close> (ratio 2
  for myocardial infarction, 4 for gastroenteritis, none for pneumonia): the clamped
  posteriors sum above 1.0, and the normalization leaves pneumonia below 0.001.
\<close>

theorem posterior_below_bound_after_normalization:
  "map (\<lambda>e. (fst e, posteriorProbability (snd e)))
       (diagnoses (snd (updateWithEvidence (nauseaEvidence 0) crowdedEngine)))
     = [(''myocardial_infarction'', Num (803700 / 1891363)),
        (''gastroenteritis'', Num (991800 / 1891363)),
        (''pneumonia'', Num (25897 / 37827260))]
   \<and> (25897 / 37827260 :: real) < 0.001"
  by (simp add: engine_defs crowdedEngine_def nauseaEvidence_def)

text \<open>
  C9. \<open>calculateInformationGain\<close> leaves the engine as it found it: the belief store
  (every record with its prior, posterior, cumulative likelihood and evidence log, and
  the tracked conditions) and the likelihood table. So do the two readers it calls. The
  hypothetical reports are the reports that \<open>updateWithEvidence\<close> would return.
\<close>

theorem information_gain_leaves_store:
  "snd (calculateInformationGain potentialEvidence now eng) = eng
   \<and> snd (calculateHypotheticalUpdates ev eng) = eng
   \<and> snd (calculateEntropy eng) = eng
   \<and> fst (calculateHypotheticalUpdates ev eng) = fst (updateWithEvidence ev eng)"
  by (simp add: calculateInformationGain_def calculateEntropy_def gainStep_def
      calculateHypotheticalUpdates_def updateWithEvidence_split Let_def)

text \<open>
  By contrast \<open>updateWithEvidence\<close> writes the store as soon as one condition is
  tracked: every evidence log grows by the evidence.
\<close>

lemma updateWithEvidence_writes_store:
  assumes "diagnoses eng \<noteq> []"
  shows "snd (updateWithEvidence ev eng) \<noteq> eng"
proof
  assume eq: "snd (updateWithEvidence ev eng) = eng"
  obtain e es where ds: "diagnoses eng = e # es"
    using assms by (cases "diagnoses eng") auto
  have "evidence (snd (hd (diagnoses (snd (updateWithEvidence ev eng))))) = evidence (snd e) @ [ev]"
    by (simp add: updateWithEvidence_split diagnoses_normalize diagnoses_afterLoop ds
        afterLoop_entry scalePosterior_def)
  with eq ds show False by simp
qed

section \<open>Properties of the workflow\<close>

lemmas policy_defs = shouldGenerateQuestions_def hasMissingEssentialInfo_def gathered_def
  emptyOrAbsent_def hasInfoRequests_def sliceLast_def routeWorkflow_def testsWereRequested_def

text \<open>
  The earlier policy decides by confidence, diagnosis count, recent recommendations and
  phase alone: its last check returns false on both branches.
\<close>

lemma earlier_policy_result:
  "shouldGenerateQuestions_earlier s =
     (confidenceLevel s < 0.6 \<or> length (differentialDiagnoses s) > 4 \<or> hasInfoRequests s
      \<or> currentPhase s = information_gathering)"
  by (simp add: shouldGenerateQuestions_earlier_def)

text \<open>
  C2, as the code has it. With the budget exhausted (\<open>cumulativeCost \<ge> costBudget\<close>)
  the next step is never another debate round nor the diagnostic tools. It is
  \<open>final_assessment\<close> unless an earlier rule of \<open>routeWorkflow\<close> applies: the state
  awaits user input, the question policy fires, or a diagnosis is ready (or the phase is
  \<open>final_diagnosis\<close>) with fewer than 3 interaction rounds and confidence below 0.8;
  then it is \<open>patient_interaction\<close>.
\<close>

theorem budget_exhausted_route:
  assumes "cumulativeCost s \<ge> costBudget s"
  shows "routeWorkflow s =
     (if awaitingUserInput s \<or> shouldGenerateQuestions s
         \<or> ((readyForDiagnosis s \<or> currentPhase s = final_diagnosis)
             \<and> interactionRound s < 3 \<and> confidenceLevel s < 0.8)
      then ''patient_interaction'' else ''final_assessment'')"
  using assms by (auto simp: routeWorkflow_def)

theorem budget_exhausted_route_witness:
  "cumulativeCost (interviewedState\<lparr>cumulativeCost := 1000\<rparr>)
     \<ge> costBudget (interviewedState\<lparr>cumulativeCost := 1000\<rparr>)
   \<and> routeWorkflow (interviewedState\<lparr>cumulativeCost := 1000\<rparr>) = ''final_assessment''"
proof -
  let ?s = "interviewedState\<lparr>cumulativeCost := 1000\<rparr>"
  have h: "cumulativeCost ?s \<ge> costBudget ?s" by (simp add: interviewedState_def testState_def)
  have "\<not> awaitingUserInput ?s" "\<not> shouldGenerateQuestions ?s" "\<not> readyForDiagnosis ?s"
    "currentPhase ?s \<noteq> final_diagnosis"
    by (simp_all add: interviewedState_def testState_def policy_defs Let_def)
  with budget_exhausted_route [OF h] h show ?thesis by simp
qed

text \<open>
  C2 as stated fails: the test state with its budget spent and \<open>awaitingUserInput\<close> set
  is routed to \<open>patient_interaction\<close>, by the first rule of \<open>routeWorkflow\<close>.
\<close>

theorem budget_exhausted_while_awaiting_input:
  "cumulativeCost (testState\<lparr>cumulativeCost := 1000, awaitingUserInput := True\<rparr>)
     = costBudget (testState\<lparr>cumulativeCost := 1000, awaitingUserInput := True\<rparr>)
   \<and> routeWorkflow (testState\<lparr>cumulativeCost := 1000, awaitingUserInput := True\<rparr>)
     = ''patient_interaction''
   \<and> routeWorkflow (testState\<lparr>cumulativeCost := 1000, awaitingUserInput := True\<rparr>)
     \<noteq> ''final_assessment''"
  by (simp add: testState_def policy_defs)




text \<open>
  C4. The question policy never returns true in a state whose \<open>pendingQuestions\<close> list
  is non-empty, and in every other state it returns true while \<open>interactionRound\<close> is below
  the minimum of 3, whatever the confidence, the diagnoses and the recent turns. The
  two halves are read in the order of the checks: the pending questions are tested
  first, so the floor applies to the states that have none.
\<close>

theorem policy_pending_then_floor:
  "(pendingQuestions s \<noteq> [] \<longrightarrow> \<not> shouldGenerateQuestions s)
   \<and> (pendingQuestions s = [] \<and> interactionRound s < 3 \<longrightarrow> shouldGenerateQuestions s)"
  by (simp add: shouldGenerateQuestions_def)

theorem policy_pending_then_floor_witness:
  "pendingQuestions (testState\<lparr>pendingQuestions := [timelineQuestion], confidenceLevel := 0.1\<rparr>) \<noteq> []
   \<and> \<not> shouldGenerateQuestions (testState\<lparr>pendingQuestions := [timelineQuestion], confidenceLevel := 0.1\<rparr>)
   \<and> pendingQuestions (interviewedState\<lparr>interactionRound := 2, confidenceLevel := 0.99\<rparr>) = []
   \<and> interactionRound (interviewedState\<lparr>interactionRound := 2, confidenceLevel := 0.99\<rparr>) < 3
   \<and> shouldGenerateQuestions (interviewedState\<lparr>interactionRound := 2, confidenceLevel := 0.99\<rparr>)"
proof -
  let ?a = "testState\<lparr>pendingQuestions := [timelineQuestion], confidenceLevel := 0.1\<rparr>"
  let ?b = "interviewedState\<lparr>interactionRound := 2, confidenceLevel := 0.99\<rparr>"
  have a: "pendingQuestions ?a \<noteq> []" by (simp add: testState_def)
  have b: "pendingQuestions ?b = []" "interactionRound ?b < 3"
    by (simp_all add: interviewedState_def testState_def)
  from policy_pending_then_floor [of ?a] a have "\<not> shouldGenerateQuestions ?a" by blast
  moreover from policy_pending_then_floor [of ?b] b have "shouldGenerateQuestions ?b" by blast
  ultimately show ?thesis using a b by blast
qed

lemma ranked_head_is_top:
  assumes "updateDifferentialDiagnoses current updates = d # ds"
  shows "\<forall>d'\<in>set (d # ds). probability d' \<le> probability d"
proof -
  have "sorted (map (\<lambda>d. - probability d) (updateDifferentialDiagnoses current updates))"
    unfolding updateDifferentialDiagnoses_def by (rule sorted_sort_key)
  with assms show ?thesis by auto
qed

text \<open>
  C7. When the checklist agent takes part and its oracle answers, the synthesis returns
  an update whose \<open>finalDiagnosis\<close> is the first entry of the differential list
  (\<open>undefined\<close> exactly when the list is empty), whose \<open>confidenceLevel\<close> is that
  entry's probability divided by 100 (0 for the empty list), and whose
  \<open>readyForDiagnosis\<close> says whether this confidence reaches the configured threshold.
  The first entry is the top-ranked one: in a list that \<open>updateDifferentialDiagnoses\<close>
  returned no entry has a greater probability.
\<close>

theorem synthesis_selects_top_diagnosis:
  assumes "checklist \<in> set (participatingAgents cfg)" and "respond s = Some turn"
  shows "\<exists>u. synthesizeDebateResults cfg respond s = Inr u
     \<and> upd_finalDiagnosis u =
         Some (case differentialDiagnoses s of [] \<Rightarrow> None | d # ds \<Rightarrow> Some d)
     \<and> upd_confidenceLevel u =
         Some (case differentialDiagnoses s of [] \<Rightarrow> 0 | d # ds \<Rightarrow> probability d / 100)
     \<and> upd_readyForDiagnosis u =
         Some ((case differentialDiagnoses s of [] \<Rightarrow> 0 | d # ds \<Rightarrow> probability d / 100)
                 \<ge> confidenceThreshold cfg)
     \<and> (\<forall>current updates. differentialDiagnoses s = updateDifferentialDiagnoses current updates
          \<longrightarrow> (case differentialDiagnoses s of
                 [] \<Rightarrow> True
               | d # ds \<Rightarrow> \<forall>d'\<in>set (differentialDiagnoses s). probability d' \<le> probability d))"
proof -
  have top: "\<forall>current updates. differentialDiagnoses s = updateDifferentialDiagnoses current updates
          \<longrightarrow> (case differentialDiagnoses s of
                 [] \<Rightarrow> True
               | d # ds \<Rightarrow> \<forall>d'\<in>set (differentialDiagnoses s). probability d' \<le> probability d)"
    using ranked_head_is_top by (auto split: list.splits)
  show ?thesis
    using assms top
    by (cases "differentialDiagnoses s") (simp_all add: synthesizeDebateResults_def emptyUpdate_def Let_def)
qed

theorem synthesis_selects_top_diagnosis_witness:
  "differentialDiagnoses rankedState = [infarction70, pneumonia15]
   \<and> (\<exists>u. synthesizeDebateResults defaultDebateConfig answeringChecklist rankedState = Inr u
        \<and> upd_finalDiagnosis u = Some (Some infarction70)
        \<and> upd_confidenceLevel u = Some 0.7
        \<and> upd_readyForDiagnosis u = Some False)"
proof -
  have dd: "differentialDiagnoses rankedState = [infarction70, pneumonia15]"
    by (simp add: rankedState_def updateDifferentialDiagnoses_def mergeDiagnosis_def
        infarction70_def pneumonia15_def)
  have h1: "checklist \<in> set (participatingAgents defaultDebateConfig)"
    by (simp add: defaultDebateConfig_def)
  have h2: "answeringChecklist rankedState = Some (the (answeringChecklist rankedState))"
    by (simp add: answeringChecklist_def)
  have p: "probability infarction70 / 100 = 0.7" "confidenceThreshold defaultDebateConfig = 0.8"
    by (simp_all add: infarction70_def defaultDebateConfig_def)
  from synthesis_selects_top_diagnosis
    [where cfg = defaultDebateConfig and respond = answeringChecklist and s = rankedState, OF h1 h2]
  obtain u where "synthesizeDebateResults defaultDebateConfig answeringChecklist rankedState = Inr u"
    and "upd_finalDiagnosis u =
           Some (case differentialDiagnoses rankedState of [] \<Rightarrow> None | d # ds \<Rightarrow> Some d)"
    and "upd_confidenceLevel u =
           Some (case differentialDiagnoses rankedState of [] \<Rightarrow> 0 | d # ds \<Rightarrow> probability d / 100)"
    and "upd_readyForDiagnosis u =
           Some ((case differentialDiagnoses rankedState of [] \<Rightarrow> 0 | d # ds \<Rightarrow> probability d / 100)
                   \<ge> confidenceThreshold defaultDebateConfig)"
    by blast
  then have "synthesizeDebateResults defaultDebateConfig answeringChecklist rankedState = Inr u
        \<and> upd_finalDiagnosis u = Some (Some infarction70)
        \<and> upd_confidenceLevel u = Some 0.7
        \<and> upd_readyForDiagnosis u = Some False"
    by (simp add: dd p)
  with dd show ?thesis by blast
qed

text \<open>
  C8. When the state already carries a case identifier, \<open>initializeCase\<close> returns the
  empty update, and applying it through the reducers leaves every field of the state as
  it was: no message is added, and diagnosis, cost and phase stay.
\<close>

theorem initializeCase_reentry:
  assumes "patientId (availableCaseInfo s) \<noteq> []"
  shows "initializeCase extract now s = emptyUpdate
       \<and> applyUpdate s (initializeCase extract now s) = s"
  using assms by (simp add: initializeCase_def applyUpdate_def emptyUpdate_def)

theorem initializeCase_reentry_witness:
  "patientId (availableCaseInfo (applyUpdate freshState (initializeCase (\<lambda>t. None) 1000 freshState)))
     = ''CASE_1000''
   \<and> currentPhase (applyUpdate freshState (initializeCase (\<lambda>t. None) 1000 freshState)) = initial_assessment
   \<and> initializeCase (\<lambda>t. None) 2000
        (applyUpdate freshState (initializeCase (\<lambda>t. None) 1000 freshState)) = emptyUpdate
   \<and> applyUpdate (applyUpdate freshState (initializeCase (\<lambda>t. None) 1000 freshState))
        (initializeCase (\<lambda>t. None) 2000
           (applyUpdate freshState (initializeCase (\<lambda>t. None) 1000 freshState)))
     = applyUpdate freshState (initializeCase (\<lambda>t. None) 1000 freshState)"
proof -
  let ?s1 = "applyUpdate freshState (initializeCase (\<lambda>t. None) 1000 freshState)"
  have d: "digitsOfNat 1000 = ''1000''"
    by code_simp
  have id: "patientId (availableCaseInfo ?s1) = ''CASE_1000''"
    and ph: "currentPhase ?s1 = initial_assessment"
    by (simp_all add: initializeCase_def applyUpdate_def emptyUpdate_def freshState_def
        initialUpdate_def fallbackCaseInfo_def mergeCaseInfo_def trim_def isSpace_def d Let_def)
  then have "patientId (availableCaseInfo ?s1) \<noteq> []" by simp
  from initializeCase_reentry [OF this, of "\<lambda>t. None" 2000] id ph show ?thesis by blast
qed

end
